theory Spec2Isabelle
  imports Main
begin

section \<open>The CSS selector builder of 05-objects-tasks.js\<close>

subsection \<open>Values, objects and the heap\<close>

text \<open>
  A selector state is a JavaScript object. Its data fields are the seven properties the
  methods read and write: \<open>el\<close>, \<open>aidi\<close>, \<open>cl\<close>, \<open>att\<close>, \<open>psc\<close>, \<open>pse\<close> and \<open>item\<close>. A property
  that was never assigned reads as \<open>undefined\<close>, which is \<open>None\<close> here; an assigned one
  holds a string. The other own properties of the builder (\<open>err1\<close>, \<open>err2\<close> and the
  methods) are assigned by no method, so every object made by a spread carries the same
  copies of them; they are constants of the model. The arguments of the methods are
  strings. Strings are only concatenated and tested for emptiness, so the character type
  plays no part.
\<close>

record selector =
  el :: "string option"
  aidi :: "string option"
  cl :: "string option"
  att :: "string option"
  psc :: "string option"
  pse :: "string option"
  item :: "string option"

text \<open>
  Objects live in a heap and are handled through references. \<open>fresh\<close> is the next
  unused address: the references in use are those below it.
\<close>

type_synonym ref = nat

record heap =
  cell :: "ref \<Rightarrow> selector"
  fresh :: ref

text \<open>The two messages, and the exception \<open>new Error(message)\<close>.\<close>

definition err1 :: string where
  "err1 = ''Element, id and pseudo-element should not occur more then one time inside the selector''"

definition err2 :: string where
  "err2 = ''Selector parts should be arranged in the following order: element, id, class, attribute, pseudo-class, pseudo-element''"

datatype error = Error string

text \<open>
  JavaScript truthiness of a field, as tested by \<open>if (this.el)\<close>: \<open>undefined\<close> and the
  empty string are falsy, every other string is truthy.
\<close>

fun truthy :: "string option \<Rightarrow> bool" where
  "truthy None = False"
| "truthy (Some s) = (s \<noteq> [])"

text \<open>The string a field converts to when it is concatenated.\<close>

fun to_string :: "string option \<Rightarrow> string" where
  "to_string None = ''undefined''"
| "to_string (Some s) = s"

text \<open>\<open>x += s\<close> on a field \<open>x\<close>: the new value of the field.\<close>

definition js_plus :: "string option \<Rightarrow> string \<Rightarrow> string option" where
  "js_plus x s = Some (to_string x @ s)"

text \<open>
  \<open>{ ...this }\<close> allocates a new object holding a copy of every own property of
  \<open>this\<close>, and \<open>items.f = e\<close> writes one field of the object \<open>items\<close> refers to.
\<close>

definition spread :: "ref \<Rightarrow> heap \<Rightarrow> ref \<times> heap" where
  "spread this h =
     (fresh h, h\<lparr>cell := (cell h)(fresh h := cell h this), fresh := Suc (fresh h)\<rparr>)"

definition assign :: "ref \<Rightarrow> (selector \<Rightarrow> selector) \<Rightarrow> heap \<Rightarrow> heap" where
  "assign r f h = h\<lparr>cell := (cell h)(r := f (cell h r))\<rparr>"

subsection \<open>The methods of cssSelectorBuilder\<close>

text \<open>
  Each method takes its arguments, the receiver \<open>this\<close> and the heap, and returns the
  reference to the object it made, or the exception it threw, with the heap it leaves.
\<close>

definition stringify :: "ref \<Rightarrow> heap \<Rightarrow> string" where
  "stringify this h =
     (let self = cell h this in
      if truthy (item self) then to_string (item self)
      else
        (let res = [];
             res = (if truthy (el self) then res @ to_string (el self) else res);
             res = (if truthy (aidi self) then res @ to_string (aidi self) else res);
             res = (if truthy (cl self) then res @ to_string (cl self) else res);
             res = (if truthy (att self) then res @ to_string (att self) else res);
             res = (if truthy (psc self) then res @ to_string (psc self) else res);
             res = (if truthy (pse self) then res @ to_string (pse self) else res)
         in res))"

definition element :: "string \<Rightarrow> ref \<Rightarrow> heap \<Rightarrow> (error + ref) \<times> heap" where
  "element value this h =
     (if truthy (el (cell h this)) then (Inl (Error err1), h)
      else if truthy (aidi (cell h this)) then (Inl (Error err2), h)
      else
        (case spread this h of (items, h1) \<Rightarrow>
           if \<not> truthy (el (cell h1 items))
           then (Inr items, assign items (\<lambda>s. s\<lparr>el := Some value\<rparr>) h1)
           else (Inr items, assign items (\<lambda>s. s\<lparr>el := js_plus (el s) value\<rparr>) h1)))"

definition id' :: "string \<Rightarrow> ref \<Rightarrow> heap \<Rightarrow> (error + ref) \<times> heap" where
  "id' value this h =
     (if truthy (aidi (cell h this)) then (Inl (Error err1), h)
      else if truthy (cl (cell h this)) \<or> truthy (pse (cell h this))
      then (Inl (Error err2), h)
      else
        (case spread this h of (items, h1) \<Rightarrow>
           if \<not> truthy (aidi (cell h1 items))
           then (Inr items, assign items (\<lambda>s. s\<lparr>aidi := Some (''#'' @ value)\<rparr>) h1)
           else (Inr items,
                 assign items (\<lambda>s. s\<lparr>aidi := js_plus (aidi s) (''#'' @ value)\<rparr>) h1)))"

definition class' :: "string \<Rightarrow> ref \<Rightarrow> heap \<Rightarrow> (error + ref) \<times> heap" where
  "class' value this h =
     (if truthy (att (cell h this)) then (Inl (Error err2), h)
      else
        (case spread this h of (items, h1) \<Rightarrow>
           if \<not> truthy (cl (cell h1 items))
           then (Inr items, assign items (\<lambda>s. s\<lparr>cl := Some (''.'' @ value)\<rparr>) h1)
           else (Inr items,
                 assign items (\<lambda>s. s\<lparr>cl := js_plus (cl s) (''.'' @ value)\<rparr>) h1)))"

definition attr :: "string \<Rightarrow> ref \<Rightarrow> heap \<Rightarrow> (error + ref) \<times> heap" where
  "attr value this h =
     (if truthy (psc (cell h this)) then (Inl (Error err2), h)
      else
        (case spread this h of (items, h1) \<Rightarrow>
           if \<not> truthy (att (cell h1 items))
           then (Inr items, assign items (\<lambda>s. s\<lparr>att := Some (''['' @ value @ '']'')\<rparr>) h1)
           else (Inr items,
                 assign items (\<lambda>s. s\<lparr>att := js_plus (att s) (''['' @ value @ '']'')\<rparr>) h1)))"

definition pseudoClass :: "string \<Rightarrow> ref \<Rightarrow> heap \<Rightarrow> (error + ref) \<times> heap" where
  "pseudoClass value this h =
     (if truthy (pse (cell h this)) then (Inl (Error err2), h)
      else
        (case spread this h of (items, h1) \<Rightarrow>
           if \<not> truthy (psc (cell h1 items))
           then (Inr items, assign items (\<lambda>s. s\<lparr>psc := Some ('':'' @ value)\<rparr>) h1)
           else (Inr items,
                 assign items (\<lambda>s. s\<lparr>psc := js_plus (psc s) ('':'' @ value)\<rparr>) h1)))"

definition pseudoElement :: "string \<Rightarrow> ref \<Rightarrow> heap \<Rightarrow> (error + ref) \<times> heap" where
  "pseudoElement value this h =
     (if truthy (pse (cell h this)) then (Inl (Error err1), h)
      else
        (case spread this h of (items, h1) \<Rightarrow>
           if \<not> truthy (pse (cell h1 items))
           then (Inr items, assign items (\<lambda>s. s\<lparr>pse := Some (''::'' @ value)\<rparr>) h1)
           else (Inr items,
                 assign items (\<lambda>s. s\<lparr>pse := js_plus (pse s) (''::'' @ value)\<rparr>) h1)))"

text \<open>
  \<open>selector1.stringify()\<close> calls the \<open>stringify\<close> property of the operand, which is
  the builder's own method in every object made by a spread. \<open>combine\<close> has no
  \<open>throw\<close>; its result has the shape of the other methods' results so that calls chain.
\<close>

definition combine :: "ref \<Rightarrow> string \<Rightarrow> ref \<Rightarrow> ref \<Rightarrow> heap \<Rightarrow> (error + ref) \<times> heap" where
  "combine selector1 combinator selector2 this h =
     (case spread this h of (items, h1) \<Rightarrow>
        (let item' = stringify selector1 h1 @ '' '' @ combinator @ '' '' @ stringify selector2 h1
         in if \<not> truthy (item (cell h1 items))
            then (Inr items, assign items (\<lambda>s. s\<lparr>item := Some item'\<rparr>) h1)
            else (Inr items, assign items (\<lambda>s. s\<lparr>item := js_plus (item s) item'\<rparr>) h1)))"

subsection \<open>The builder object and the initial heap\<close>

text \<open>
  The object literal \<open>cssSelectorBuilder\<close> defines none of the seven data fields. At
  the start it is the only object, at address 0.
\<close>

definition cssSelectorBuilder :: selector where
  "cssSelectorBuilder =
     \<lparr>el = None, aidi = None, cl = None, att = None, psc = None, pse = None, item = None\<rparr>"

definition builder :: ref where
  "builder = 0"

definition init_heap :: heap where
  "init_heap = \<lparr>cell = (\<lambda>_. cssSelectorBuilder), fresh = 1\<rparr>"

subsection \<open>Vocabulary of the statements\<close>

text \<open>
  A chained call \<open>x.m(...)\<close>, where \<open>x\<close> is the outcome of an earlier call: an exception of
  the earlier call propagates, otherwise \<open>m\<close> runs on the returned object.
\<close>

definition call :: "(error + ref) \<times> heap \<Rightarrow> (ref \<Rightarrow> heap \<Rightarrow> (error + ref) \<times> heap)
    \<Rightarrow> (error + ref) \<times> heap" where
  "call res m = (case res of (Inl e, h) \<Rightarrow> (Inl e, h) | (Inr r, h) \<Rightarrow> m r h)"

text \<open>The final \<open>.stringify()\<close> of a chain.\<close>

definition render :: "(error + ref) \<times> heap \<Rightarrow> error + string" where
  "render res = (case res of (Inl e, h) \<Rightarrow> Inl e | (Inr r, h) \<Rightarrow> Inr (stringify r h))"

text \<open>The object an operation returned, or the exception it threw.\<close>

definition outcome :: "(error + ref) \<times> heap \<Rightarrow> error + selector" where
  "outcome res = (case res of (Inl e, h) \<Rightarrow> Inl e | (Inr r, h) \<Rightarrow> Inr (cell h r))"

text \<open>
  The six kinds of fragment in canonical order, the append method of each kind, the field
  it writes, and the fragment text with the kind's marker as the specification gives it.
\<close>

datatype kind = Element | Id | Class | Attr | PseudoClass | PseudoElement

fun append_part :: "kind \<Rightarrow> string \<Rightarrow> ref \<Rightarrow> heap \<Rightarrow> (error + ref) \<times> heap" where
  "append_part Element = element"
| "append_part Id = id'"
| "append_part Class = class'"
| "append_part Attr = attr"
| "append_part PseudoClass = pseudoClass"
| "append_part PseudoElement = pseudoElement"

fun field :: "kind \<Rightarrow> selector \<Rightarrow> string option" where
  "field Element = el"
| "field Id = aidi"
| "field Class = cl"
| "field Attr = att"
| "field PseudoClass = psc"
| "field PseudoElement = pse"

fun set_field :: "kind \<Rightarrow> string option \<Rightarrow> selector \<Rightarrow> selector" where
  "set_field Element x s = s\<lparr>el := x\<rparr>"
| "set_field Id x s = s\<lparr>aidi := x\<rparr>"
| "set_field Class x s = s\<lparr>cl := x\<rparr>"
| "set_field Attr x s = s\<lparr>att := x\<rparr>"
| "set_field PseudoClass x s = s\<lparr>psc := x\<rparr>"
| "set_field PseudoElement x s = s\<lparr>pse := x\<rparr>"

fun marked :: "kind \<Rightarrow> string \<Rightarrow> string" where
  "marked Element v = v"
| "marked Id v = ''#'' @ v"
| "marked Class v = ''.'' @ v"
| "marked Attr v = ''['' @ v @ '']''"
| "marked PseudoClass v = '':'' @ v"
| "marked PseudoElement v = ''::'' @ v"

text \<open>
  The specification's append: the fragment text is concatenated to the prior value of its
  kind, or initialises it when the kind is absent.
\<close>

definition stored :: "string option \<Rightarrow> string \<Rightarrow> string option" where
  "stored prior t = Some ((if truthy prior then to_string prior else []) @ t)"

text \<open>A run of append calls chained one after the other.\<close>

fun appends :: "(kind \<times> string) list \<Rightarrow> ref \<Rightarrow> heap \<Rightarrow> (error + ref) \<times> heap" where
  "appends [] this h = (Inr this, h)"
| "appends ((k, v) # ps) this h = call (append_part k v this h) (appends ps)"

text \<open>
  \<open>derived h this upd r h'\<close>: the heap \<open>h'\<close> is \<open>h\<close> with one more object, at the
  address \<open>r\<close> that was unused in \<open>h\<close>, and that object is the copy of \<open>this\<close> changed by
  \<open>upd\<close>.
\<close>

definition derived :: "heap \<Rightarrow> ref \<Rightarrow> (selector \<Rightarrow> selector) \<Rightarrow> ref \<Rightarrow> heap \<Rightarrow> bool" where
  "derived h this upd r h' \<longleftrightarrow>
     r = fresh h \<and>
     h' = h\<lparr>cell := (cell h)(r := upd (cell h this)), fresh := Suc (fresh h)\<rparr>"

subsection \<open>Example heaps\<close>

text \<open>
  \<open>heap_full\<close>: after \<open>builder.element('a').id('b').pseudoElement('c')\<close>; the three
  objects made are at 1, 2 and 3.
\<close>

definition heap_full :: heap where
  "heap_full = snd (call (call (element ''a'' builder init_heap) (id' ''b'')) (pseudoElement ''c''))"

text \<open>
  \<open>heap_pair\<close>: after \<open>builder.element('div').id('main')\<close> (objects 1 and 2) and then
  \<open>builder.element('span')\<close> (object 3).
\<close>

definition heap_pair :: heap where
  "heap_pair =
     snd (element ''span'' builder (snd (call (element ''div'' builder init_heap) (id' ''main''))))"

text \<open>
  \<open>heap_branch\<close>: \<open>base = builder.element('a')\<close> (object 1), then \<open>base.id('x')\<close>
  (object 2), then \<open>base.class('y')\<close> (object 3).
\<close>

definition heap_branch :: heap where
  "heap_branch = snd (class' ''y'' 1 (snd (id' ''x'' 1 (snd (element ''a'' builder init_heap)))))"

section \<open>The object codec: getJSON and fromJSON\<close>

subsection \<open>Plain data\<close>

text \<open>
  The values the codec is applied to: \<open>null\<close>, booleans, numbers, strings, arrays and
  records. A record is the list of its own enumerable properties in the order in which
  they are enumerated. Numbers are the integers of the safe range, which print as their
  decimal digits; fractions, exponents, \<open>NaN\<close> and the infinities are outside the model.
  A string is a list of code units below 256.
\<close>

datatype jv = JNull | JBool bool | JNum int | JStr string | JArr "jv list"
  | JObj "(string \<times> jv) list"


subsection \<open>JSON.stringify\<close>

text \<open>
  Modelled from the spec: \<open>JSON.stringify\<close> is a built-in of the JavaScript runtime, which
  \<open>getJSON\<close> calls and the sources do not contain. It is the specification's \<open>encode\<close>
  (arrays serialize as ordered sequences, records as field mappings), with the text that
  ECMA-262 gives for a call without replacer and without indentation: no white space,
  members as \<open>"key":value\<close> separated by commas, strings quoted by \<open>QuoteJSONString\<close>.
\<close>

definition dquote :: char where
  "dquote = CHR 0x22"

definition backslash :: char where
  "backslash = CHR 0x5C"

definition digit_char :: "nat \<Rightarrow> char" where
  "digit_char d = char_of (48 + d)"

fun digits :: "nat \<Rightarrow> string" where
  "digits n = (if n < 10 then [digit_char n] else digits (n div 10) @ [digit_char (n mod 10)])"

declare digits.simps [simp del]

definition number_to_string :: "int \<Rightarrow> string" where
  "number_to_string i = (if i < 0 then CHR ''-'' # digits (nat (- i)) else digits (nat i))"

definition hex_char :: "nat \<Rightarrow> char" where
  "hex_char d = (if d < 10 then char_of (48 + d) else char_of (87 + d))"

definition quote_char :: "char \<Rightarrow> string" where
  "quote_char c =
     (if c = CHR 0x08 then [backslash, CHR ''b'']
      else if c = CHR 0x09 then [backslash, CHR ''t'']
      else if c = CHR 0x0A then [backslash, CHR ''n'']
      else if c = CHR 0x0C then [backslash, CHR ''f'']
      else if c = CHR 0x0D then [backslash, CHR ''r'']
      else if c = dquote then [backslash, dquote]
      else if c = backslash then [backslash, backslash]
      else if (of_char c :: nat) < 32
      then [backslash, CHR ''u'', CHR ''0'', CHR ''0'',
            hex_char (of_char c div 16), hex_char (of_char c mod 16)]
      else [c])"

definition quote :: "string \<Rightarrow> string" where
  "quote s = dquote # concat (map quote_char s) @ [dquote]"

fun commas :: "string list \<Rightarrow> string" where
  "commas [] = []"
| "commas [x] = x"
| "commas (x # y # zs) = x @ CHR '','' # commas (y # zs)"

fun JSON_stringify :: "jv \<Rightarrow> string" where
  "JSON_stringify JNull = ''null''"
| "JSON_stringify (JBool b) = (if b then ''true'' else ''false'')"
| "JSON_stringify (JNum i) = number_to_string i"
| "JSON_stringify (JStr s) = quote s"
| "JSON_stringify (JArr vs) = CHR ''['' # commas (map JSON_stringify vs) @ '']''"
| "JSON_stringify (JObj kvs) =
     CHR ''{'' #
     commas (map (\<lambda>kv. quote (fst kv) @ CHR '':'' # JSON_stringify (snd kv)) kvs) @ ''}''"

subsection \<open>JSON.parse\<close>


definition is_ws :: "char \<Rightarrow> bool" where
  "is_ws c \<longleftrightarrow> c = CHR 0x20 \<or> c = CHR 0x09 \<or> c = CHR 0x0A \<or> c = CHR 0x0D"

definition skip_ws :: "string \<Rightarrow> string" where
  "skip_ws s = dropWhile is_ws s"















subsection \<open>Object.create and Object.assign\<close>









subsection \<open>The two functions of the sources\<close>



subsection \<open>Vocabulary of the statements on the codec\<close>



text \<open>The text of one member of a printed record.\<close>

definition member_text :: "string \<times> jv \<Rightarrow> string" where
  "member_text kv = quote (fst kv) @ CHR '':'' # JSON_stringify (snd kv)"

text \<open>
  What may follow a printed value inside a printed text: nothing, a comma or a closing
  bracket; what may follow a printed number for the parser to stop there; and what a
  printed value starts with.
\<close>

definition sep :: "string \<Rightarrow> bool" where
  "sep rest \<longleftrightarrow> rest = [] \<or> hd rest = CHR '','' \<or> hd rest = CHR '']'' \<or> hd rest = CHR ''}''"


definition opens :: "string \<Rightarrow> bool" where
  "opens s \<longleftrightarrow> s \<noteq> [] \<and> \<not> is_ws (hd s) \<and> hd s \<noteq> CHR '']'' \<and> hd s \<noteq> CHR ''}''"

section \<open>Unfolding rules and small facts\<close>

lemmas methods = element_def id'_def class'_def attr_def pseudoClass_def pseudoElement_def
  combine_def spread_def assign_def js_plus_def

lemmas start = init_heap_def builder_def cssSelectorBuilder_def

lemmas chain = call_def render_def outcome_def stringify_def

lemma err1_neq_err2: "err1 \<noteq> err2"
  by (simp add: err1_def err2_def)

lemma stringify_item:
  "truthy (item (cell h r)) \<Longrightarrow> stringify r h = to_string (item (cell h r))"
  by (simp add: stringify_def)

lemma stringify_spread:
  "a < fresh h \<Longrightarrow> stringify a (snd (spread this h)) = stringify a h"
  by (simp add: stringify_def spread_def)

text \<open>What \<open>combine\<close> returns, in one equation.\<close>

lemma combine_result:
  "combine s1 c s2 this h =
    (Inr (fresh h),
     h\<lparr>cell := (cell h)(fresh h := (cell h this)\<lparr>item :=
          (if \<not> truthy (item (cell h this))
           then Some (stringify s1 (snd (spread this h)) @ '' '' @ c @ '' '' @
                      stringify s2 (snd (spread this h)))
           else js_plus (item (cell h this))
                  (stringify s1 (snd (spread this h)) @ '' '' @ c @ '' '' @
                   stringify s2 (snd (spread this h))))\<rparr>),
        fresh := Suc (fresh h)\<rparr>)"
  by (simp add: combine_def spread_def assign_def Let_def)

text \<open>No append method writes \<open>item\<close>, so a run of appends keeps it.\<close>

lemma append_part_keeps_item:
  "append_part k v this h = (Inr r, h') \<Longrightarrow> item (cell h' r) = item (cell h this)"
  by (cases k) (auto simp add: methods split: if_splits)

lemma appends_keep_item:
  "appends ps this h = (Inr r, h') \<Longrightarrow> item (cell h' r) = item (cell h this)"
proof (induction ps arbitrary: this h)
  case Nil
  then show ?case by simp
next
  case (Cons p ps)
  obtain k v where p: "p = (k, v)" by (cases p)
  show ?case
  proof (cases "append_part k v this h")
    case (Pair res h1)
    show ?thesis
    proof (cases res)
      case (Inl e)
      with Pair Cons.prems p show ?thesis by (simp add: call_def)
    next
      case (Inr r1)
      with Pair Cons.prems p have "appends ps r1 h1 = (Inr r, h')" by (simp add: call_def)
      then have "item (cell h' r) = item (cell h1 r1)" by (rule Cons.IH)
      moreover from Pair Inr have "item (cell h1 r1) = item (cell h this)"
        by (simp add: append_part_keeps_item)
      ultimately show ?thesis by simp
    qed
  qed
qed

text \<open>Every append method accepts an object that has no fragment at all.\<close>

lemma append_part_on_fresh_combination:
  "cell h r = cssSelectorBuilder\<lparr>item := x\<rparr> \<Longrightarrow> \<exists>r' h'. append_part k v r h = (Inr r', h')"
  by (cases k) (simp_all add: methods cssSelectorBuilder_def)

text \<open>The heap after an append or a combine.\<close>

lemma append_part_derived:
  "this < fresh h \<Longrightarrow> append_part k v this h = (Inr r, h') \<Longrightarrow>
     derived h this (set_field k (stored (field k (cell h this)) (marked k v))) r h' \<and>
     cell h' this = cell h this \<and> r < fresh h'"
  by (cases k) (auto simp add: methods derived_def stored_def split: if_splits)

lemma append_part_error_heap:
  "append_part k v this h = (Inl e, h') \<Longrightarrow> h' = h"
  by (cases k) (auto simp add: methods split: if_splits)

lemma combine_derived:
  "this < fresh h \<Longrightarrow> combine s1 c s2 this h = (res, h') \<Longrightarrow>
     \<exists>r x. res = Inr r \<and> derived h this (\<lambda>s. s\<lparr>item := x\<rparr>) r h' \<and>
         cell h' this = cell h this \<and> r < fresh h'"
  by (auto simp add: combine_result derived_def)

section \<open>Rendering\<close>


text \<open>
  C10. Calling \<open>stringify()\<close> on the initial builder state, before any append or combine,
  returns the empty string.
\<close>

theorem stringify_initial_builder:
  "stringify builder init_heap = []"
  by (simp add: stringify_def init_heap_def cssSelectorBuilder_def)

text \<open>
  C1. For every state with no precomputed combination text, \<open>stringify()\<close> returns the
  concatenation, in the order element, id, class, attribute, pseudo-class, pseudo-element,
  of exactly the parts that are present, with nothing between them. A part is present, as
  \<open>stringify\<close> itself tests it, when its field is truthy. Each appended fragment is stored
  with its marker: whenever an append of kind \<open>k\<close> returns a state, the field of that kind
  holds the prior text of the kind followed by the marked value. So
  \<open>id('main').class('container').class('editable').stringify()\<close> is
  \<open>'#main.container.editable'\<close>.
\<close>

theorem stringify_canonical_concatenation:
  "(\<not> truthy (item (cell h this)) \<longrightarrow>
      stringify this h = concat (map to_string (filter truthy
        [el (cell h this), aidi (cell h this), cl (cell h this), att (cell h this),
         psc (cell h this), pse (cell h this)]))) \<and>
   (outcome (append_part k v this h) = Inr s' \<longrightarrow>
      field k s' = stored (field k (cell h this)) (marked k v)) \<and>
   render (call (call (id' ''main'' builder init_heap) (class' ''container''))
                (class' ''editable'')) = Inr ''#main.container.editable''"
proof (intro conjI impI)
  assume "\<not> truthy (item (cell h this))"
  then show "stringify this h = concat (map to_string (filter truthy
        [el (cell h this), aidi (cell h this), cl (cell h this), att (cell h this),
         psc (cell h this), pse (cell h this)]))"
    by (simp add: stringify_def Let_def)
next
  assume "outcome (append_part k v this h) = Inr s'"
  then show "field k s' = stored (field k (cell h this)) (marked k v)"
    by (cases k) (auto simp add: outcome_def methods stored_def split: if_splits)
next
  show "render (call (call (id' ''main'' builder init_heap) (class' ''container''))
                (class' ''editable'')) = Inr ''#main.container.editable''"
    by (simp add: chain methods start)
qed

theorem stringify_canonical_concatenation_witness:
  "\<not> truthy (item (cell heap_full 3)) \<and> stringify 3 heap_full = ''a#b::c'' \<and>
   outcome (append_part Class ''x'' 3 heap_full) =
     Inr \<lparr>el = Some ''a'', aidi = Some ''#b'', cl = Some ''.x'', att = None, psc = None,
          pse = Some ''::c'', item = None\<rparr> \<and>
   field Class \<lparr>el = Some ''a'', aidi = Some ''#b'', cl = Some ''.x'', att = None,
          psc = None, pse = Some ''::c'', item = None\<rparr> =
     stored (field Class (cell heap_full 3)) (marked Class ''x'')"
  using stringify_canonical_concatenation [of heap_full 3 Class "''x''"
      "\<lparr>el = Some ''a'', aidi = Some ''#b'', cl = Some ''.x'', att = None, psc = None,
          pse = Some ''::c'', item = None\<rparr>"]
  by (simp add: heap_full_def chain methods start stored_def)

section \<open>The checks of the append methods\<close>

text \<open>
  What the duplicate checks catch: a second element, id or pseudo-element on a state
  whose part of that kind is truthy raises the duplicate error (the one carrying \<open>err1\<close>),
  and the heap is returned as it was, so no object is made.
\<close>

lemma duplicate_part_raises:
  "(truthy (el (cell h this)) \<longrightarrow> element v this h = (Inl (Error err1), h)) \<and>
   (truthy (aidi (cell h this)) \<longrightarrow> id' v this h = (Inl (Error err1), h)) \<and>
   (truthy (pse (cell h this)) \<longrightarrow> pseudoElement v this h = (Inl (Error err1), h))"
  by (simp add: element_def id'_def pseudoElement_def)

text \<open>
  C2. The claim is that appending an element, id or pseudo-element fragment when a
  fragment of that kind is already present raises the duplicate error. \<open>element\<close> misses
  one case: \<open>builder.element('')\<close> returns a state whose element part is set, to the empty
  string; the test \<open>if (this.el)\<close> is falsy on it, so \<open>.element('b')\<close> raises nothing, returns
  a new state (object 2) and that state renders as \<open>'b'\<close>. The sibling methods do raise on
  the same input, their stored text being never empty: \<open>id('').id('b')\<close> and
  \<open>pseudoElement('').pseudoElement('b')\<close> both raise the duplicate error.
\<close>

theorem duplicate_element_missed_after_empty:
  "outcome (element [] builder init_heap) =
     Inr \<lparr>el = Some [], aidi = None, cl = None, att = None, psc = None, pse = None,
          item = None\<rparr> \<and>
   fst (call (element [] builder init_heap) (element ''b'')) = Inr 2 \<and>
   render (call (element [] builder init_heap) (element ''b'')) = Inr ''b'' \<and>
   fst (call (id' [] builder init_heap) (id' ''b'')) = Inl (Error err1) \<and>
   fst (call (pseudoElement [] builder init_heap) (pseudoElement ''b'')) = Inl (Error err1)"
  by (simp add: chain methods start)

text \<open>
  C3, as stated, fails: \<open>builder.element('div')\<close> has an element fragment and nothing else,
  and \<open>.element('span')\<close> on it raises the duplicate error.
\<close>

theorem second_element_counterexample:
  "outcome (element ''div'' builder init_heap) =
     Inr \<lparr>el = Some ''div'', aidi = None, cl = None, att = None, psc = None, pse = None,
          item = None\<rparr> \<and>
   fst (call (element ''div'' builder init_heap) (element ''span'')) = Inl (Error err1)"
  by (simp add: chain methods start)

text \<open>
  C3, amended. Appending a second element name to a state whose element part is not empty
  raises the duplicate error and leaves the heap as it was, whether or not an id, a class
  or any other fragment is set; and nothing is ever concatenated onto an element part:
  whenever \<open>element\<close> returns a state, the element part of that state is the given name
  alone.
\<close>

theorem second_element_is_duplicate:
  "(truthy (el (cell h this)) \<longrightarrow> element v this h = (Inl (Error err1), h)) \<and>
   (outcome (element w that g) = Inr s' \<longrightarrow> el s' = Some w)"
  by (auto simp add: outcome_def methods split: if_splits)

theorem second_element_is_duplicate_witness:
  "truthy (el (cell heap_full 1)) \<and>
   element ''span'' 1 heap_full = (Inl (Error err1), heap_full) \<and>
   outcome (element ''div'' builder init_heap) =
     Inr \<lparr>el = Some ''div'', aidi = None, cl = None, att = None, psc = None, pse = None,
          item = None\<rparr> \<and>
   el \<lparr>el = Some ''div'', aidi = None, cl = None, att = None, psc = None, pse = None,
       item = None\<rparr> = Some ''div''"
  using second_element_is_duplicate [of heap_full 1 "''span''" "''div''" builder init_heap
      "\<lparr>el = Some ''div'', aidi = None, cl = None, att = None, psc = None, pse = None,
          item = None\<rparr>"]
  by (simp add: heap_full_def chain methods start)

text \<open>
  C4, as stated, fails both ways: after \<open>pseudoElement('after')\<close> alone, \<open>id('x')\<close> raises
  the order error, and after \<open>pseudoClass('hover')\<close> alone, \<open>id('x')\<close> raises nothing and
  the result renders as \<open>'#x:hover'\<close>.
\<close>

theorem id_order_check_counterexample:
  "outcome (pseudoElement ''after'' builder init_heap) =
     Inr \<lparr>el = None, aidi = None, cl = None, att = None, psc = None,
          pse = Some ''::after'', item = None\<rparr> \<and>
   fst (call (pseudoElement ''after'' builder init_heap) (id' ''x'')) = Inl (Error err2) \<and>
   outcome (pseudoClass ''hover'' builder init_heap) =
     Inr \<lparr>el = None, aidi = None, cl = None, att = None, psc = Some '':hover'',
          pse = None, item = None\<rparr> \<and>
   render (call (pseudoClass ''hover'' builder init_heap) (id' ''x'')) = Inr ''#x:hover''"
  by (simp add: chain methods start)

text \<open>
  C4, amended. For every state with no id fragment yet, appending an id fragment raises
  the order error (the one carrying \<open>err2\<close>) exactly when a class fragment or a
  pseudo-element fragment is present: \<open>id\<close> tests \<open>this.cl || this.pse\<close>. In particular it
  raises after \<open>class('x')\<close>, and it does not raise when only attribute or pseudo-class
  fragments are present.
\<close>

theorem id_order_check:
  "(\<not> truthy (aidi (cell h this)) \<longrightarrow>
      (fst (id' v this h) = Inl (Error err2)) =
      (truthy (cl (cell h this)) \<or> truthy (pse (cell h this)))) \<and>
   fst (call (class' ''x'' builder init_heap) (id' ''y'')) = Inl (Error err2)"
  by (auto simp add: chain methods start split: if_splits)

theorem id_order_check_witness:
  "\<not> truthy (aidi (cell (snd (class' ''x'' builder init_heap)) 1)) \<and>
   truthy (cl (cell (snd (class' ''x'' builder init_heap)) 1)) \<and>
   fst (id' ''y'' 1 (snd (class' ''x'' builder init_heap))) = Inl (Error err2)"
  using id_order_check [of "snd (class' ''x'' builder init_heap)" 1 "''y''"]
  by (simp add: chain methods start)

text \<open>
  C5. The order checks of the other append methods. \<open>element\<close> raises the order error
  exactly when no element fragment is present and an id fragment is, so only when an id
  fragment is present: class, attribute, pseudo-class and pseudo-element fragments do
  not trigger it. \<open>class\<close> raises it exactly when an attribute fragment is present,
  \<open>attr\<close> exactly when a pseudo-class fragment is present, and \<open>pseudoClass\<close> exactly
  when a pseudo-element fragment is present.
\<close>

theorem order_check_matrix:
  "(fst (element v this h) = Inl (Error err2)) =
     (\<not> truthy (el (cell h this)) \<and> truthy (aidi (cell h this))) \<and>
   (fst (class' v this h) = Inl (Error err2)) = truthy (att (cell h this)) \<and>
   (fst (attr v this h) = Inl (Error err2)) = truthy (psc (cell h this)) \<and>
   (fst (pseudoClass v this h) = Inl (Error err2)) = truthy (pse (cell h this))"
  using err1_neq_err2 by (auto simp add: methods split: if_splits)

section \<open>Combination\<close>

text \<open>
  C6. For any two states \<open>left\<close> and \<open>right\<close> of the heap and any combinator string \<open>c\<close>,
  \<open>combine(left, c, right)\<close> invoked on the builder returns a state, and \<open>stringify()\<close> on
  it is the render of \<open>left\<close>, one space, \<open>c\<close> as given, one space, the render of
  \<open>right\<close>. Appending a fragment of any kind to the combined state succeeds and the result
  renders as the combined state does; and whatever run of appends on the combined state
  succeeds, its result still renders as the combined state does.
\<close>

theorem combine_renders_joined_text:
  assumes "cell h this = cssSelectorBuilder" and "left < fresh h" and "right < fresh h"
    and "combine left c right this h = (res, h')"
  shows "\<exists>r. res = Inr r \<and>
     stringify r h' = stringify left h @ '' '' @ c @ '' '' @ stringify right h \<and>
     (\<forall>k v. \<exists>r' h''. append_part k v r h' = (Inr r', h'') \<and>
                      stringify r' h'' = stringify r h') \<and>
     (\<forall>ps r' h''. appends ps r h' = (Inr r', h'') \<longrightarrow> stringify r' h'' = stringify r h')"
proof -
  let ?t = "stringify left h @ '' '' @ c @ '' '' @ stringify right h"
  from assms(1) have nt: "\<not> truthy (item (cell h this))"
    by (simp add: cssSelectorBuilder_def)
  from assms(4) nt assms(2,3) have res: "res = Inr (fresh h)"
    and h': "h' = h\<lparr>cell := (cell h)(fresh h := (cell h this)\<lparr>item := Some ?t\<rparr>),
                    fresh := Suc (fresh h)\<rparr>"
    by (simp_all add: combine_result stringify_spread)
  from h' have it: "item (cell h' (fresh h)) = Some ?t" by simp
  then have tr: "truthy (item (cell h' (fresh h)))" by simp
  from it tr have s: "stringify (fresh h) h' = ?t" by (simp add: stringify_item)
  have one: "\<exists>r' h''. append_part k v (fresh h) h' = (Inr r', h'') \<and>
                      stringify r' h'' = stringify (fresh h) h'" for k v
  proof -
    from h' assms(1) have "cell h' (fresh h) = cssSelectorBuilder\<lparr>item := Some ?t\<rparr>" by simp
    then obtain r' h'' where a: "append_part k v (fresh h) h' = (Inr r', h'')"
      using append_part_on_fresh_combination by blast
    then have "item (cell h'' r') = item (cell h' (fresh h))" by (rule append_part_keeps_item)
    with tr have "stringify r' h'' = stringify (fresh h) h'" by (simp add: stringify_item)
    with a show ?thesis by blast
  qed
  have many: "stringify r' h'' = stringify (fresh h) h'"
    if "appends ps (fresh h) h' = (Inr r', h'')" for ps r' h''
  proof -
    from that have "item (cell h'' r') = item (cell h' (fresh h))" by (rule appends_keep_item)
    with tr show ?thesis by (simp add: stringify_item)
  qed
  from res s one many show ?thesis by blast
qed

theorem combine_renders_joined_text_witness:
  "cell heap_pair builder = cssSelectorBuilder \<and> 2 < fresh heap_pair \<and> 3 < fresh heap_pair \<and>
   stringify 2 heap_pair = ''div#main'' \<and> stringify 3 heap_pair = ''span'' \<and>
   fst (combine 2 ''+'' 3 builder heap_pair) = Inr 4 \<and>
   stringify 4 (snd (combine 2 ''+'' 3 builder heap_pair)) = ''div#main + span'' \<and>
   render (appends [(Class, ''x''), (PseudoClass, ''hover'')] 4
             (snd (combine 2 ''+'' 3 builder heap_pair))) = Inr ''div#main + span''"
  using combine_renders_joined_text [of heap_pair builder 2 3 "''+''" "Inr 4"
      "snd (combine 2 ''+'' 3 builder heap_pair)"]
  by (simp add: heap_pair_def chain methods start)

text \<open>
  C7, as stated, fails: in \<open>heap_full\<close>, objects 1 and 2 render as \<open>'a'\<close> and \<open>'a#b'\<close>;
  \<open>builder.combine(1, '+', 2)\<close> renders as \<open>'a + a#b'\<close>, and \<open>.combine(1, '>', 2)\<close> invoked
  on that state renders as \<open>'a + a#ba > a#b'\<close>, not as the new combination \<open>'a > a#b'\<close>.
\<close>

theorem combine_on_combined_counterexample:
  "stringify 1 heap_full = ''a'' \<and> stringify 2 heap_full = ''a#b'' \<and>
   render (combine 1 ''+'' 2 builder heap_full) = Inr ''a + a#b'' \<and>
   render (call (combine 1 ''+'' 2 builder heap_full) (combine 1 ''>'' 2)) =
     Inr ''a + a#ba > a#b'' \<and>
   render (call (combine 1 ''+'' 2 builder heap_full) (combine 1 ''>'' 2)) \<noteq>
     Inr ''a > a#b''"
  by (simp add: heap_full_def chain methods start)

text \<open>
  C7, amended. Invoking \<open>combine\<close> on a state whose precomputed combination text is set
  appends the new text (left render, space, combinator, space, right render) to that
  precomputed text, with nothing between them: \<open>stringify()\<close> on the returned state is the
  old text followed by the new one.
\<close>

theorem combine_on_combined_appends:
  assumes "truthy (item (cell h this))" and "left < fresh h" and "right < fresh h"
    and "combine left c right this h = (res, h')"
  shows "\<exists>r. res = Inr r \<and>
     stringify r h' =
       stringify this h @ stringify left h @ '' '' @ c @ '' '' @ stringify right h"
proof -
  let ?t = "stringify left h @ '' '' @ c @ '' '' @ stringify right h"
  from assms have res: "res = Inr (fresh h)"
    and h': "h' = h\<lparr>cell := (cell h)(fresh h :=
                      (cell h this)\<lparr>item := js_plus (item (cell h this)) ?t\<rparr>),
                    fresh := Suc (fresh h)\<rparr>"
    by (simp_all add: combine_result stringify_spread)
  from h' have it: "item (cell h' (fresh h)) = Some (to_string (item (cell h this)) @ ?t)"
    by (simp add: js_plus_def)
  then have "stringify (fresh h) h' = to_string (item (cell h this)) @ ?t"
    by (simp add: stringify_item)
  with assms(1) res show ?thesis by (simp add: stringify_item)
qed

theorem combine_on_combined_appends_witness:
  "truthy (item (cell (snd (combine 1 ''+'' 2 builder heap_full)) 4)) \<and>
   1 < fresh (snd (combine 1 ''+'' 2 builder heap_full)) \<and>
   2 < fresh (snd (combine 1 ''+'' 2 builder heap_full)) \<and>
   fst (combine 1 ''>'' 2 4 (snd (combine 1 ''+'' 2 builder heap_full))) = Inr 5 \<and>
   stringify 5 (snd (combine 1 ''>'' 2 4 (snd (combine 1 ''+'' 2 builder heap_full)))) =
     ''a + a#ba > a#b''"
  using combine_on_combined_appends [of "snd (combine 1 ''+'' 2 builder heap_full)" 4 1 2
     "''>''" "Inr 5" "snd (combine 1 ''>'' 2 4 (snd (combine 1 ''+'' 2 builder heap_full)))"]
  by (simp add: heap_full_def chain methods start)

section \<open>Frame: the receiver is never written\<close>

text \<open>
  C8. Every append and combine operation invoked on an object of the heap returns a new
  object: its address was unused before, the heap afterwards is the heap before with that
  one object added, and the new object is the copy of the receiver with exactly one field
  written (the field of the appended kind, which holds the prior text followed by the
  marked value; for combine, the field \<open>item\<close>). The receiver reads as before. An
  append that raises leaves the heap as it was. So with \<open>base = builder.element('a')\<close>,
  \<open>base.id('x')\<close> and \<open>base.class('y')\<close> render as \<open>'a#x'\<close> and \<open>'a.y'\<close>: the first has no
  class part, the second no id part, and \<open>base\<close> still renders as \<open>'a'\<close>.
\<close>

theorem operations_leave_receiver_unchanged:
  assumes "this < fresh h"
  shows "(append_part k v this h = (Inr r, h1) \<longrightarrow>
            derived h this (set_field k (stored (field k (cell h this)) (marked k v))) r h1 \<and>
            cell h1 this = cell h this \<and> r < fresh h1) \<and>
         (append_part k2 v2 this h = (Inl e, h2) \<longrightarrow> h2 = h) \<and>
         (combine s1 c s2 this h = (res, h3) \<longrightarrow>
            (\<exists>r3 x. res = Inr r3 \<and> derived h this (\<lambda>s. s\<lparr>item := x\<rparr>) r3 h3 \<and>
                  cell h3 this = cell h this \<and> r3 < fresh h3)) \<and>
         (fst (element ''a'' builder init_heap) = Inr 1 \<and>
          fst (id' ''x'' 1 (snd (element ''a'' builder init_heap))) = Inr 2 \<and>
          fst (class' ''y'' 1 (snd (id' ''x'' 1 (snd (element ''a'' builder init_heap))))) =
            Inr 3 \<and>
          stringify 1 heap_branch = ''a'' \<and>
          stringify 2 heap_branch = ''a#x'' \<and> cl (cell heap_branch 2) = None \<and>
          stringify 3 heap_branch = ''a.y'' \<and> aidi (cell heap_branch 3) = None)"
proof (intro conjI impI)
  assume "append_part k v this h = (Inr r, h1)"
  with assms
  show "derived h this (set_field k (stored (field k (cell h this)) (marked k v))) r h1"
    "cell h1 this = cell h this" "r < fresh h1"
    by (simp_all add: append_part_derived)
next
  assume "append_part k2 v2 this h = (Inl e, h2)"
  then show "h2 = h" by (rule append_part_error_heap)
next
  assume "combine s1 c s2 this h = (res, h3)"
  with assms show "\<exists>r3 x. res = Inr r3 \<and> derived h this (\<lambda>s. s\<lparr>item := x\<rparr>) r3 h3 \<and>
                  cell h3 this = cell h this \<and> r3 < fresh h3"
    by (rule combine_derived)
qed (simp_all add: heap_branch_def chain methods start)

theorem operations_leave_receiver_unchanged_witness:
  "3 < fresh heap_full \<and>
   append_part Class ''x'' 3 heap_full = (Inr 4, snd (class' ''x'' 3 heap_full)) \<and>
   derived heap_full 3 (set_field Class (Some ''.x'')) 4 (snd (class' ''x'' 3 heap_full)) \<and>
   cell (snd (class' ''x'' 3 heap_full)) 3 = cell heap_full 3 \<and>
   append_part Element ''z'' 3 heap_full = (Inl (Error err1), heap_full) \<and>
   combine 1 ''+'' 2 3 heap_full = (Inr 4, snd (combine 1 ''+'' 2 3 heap_full)) \<and>
   cell (snd (combine 1 ''+'' 2 3 heap_full)) 3 = cell heap_full 3"
  using operations_leave_receiver_unchanged [of 3 heap_full Class "''x''" 4
              "snd (class' ''x'' 3 heap_full)"
              Element "''z''" "Error err1" heap_full
              1 "''+''" 2 "Inr 4" "snd (combine 1 ''+'' 2 3 heap_full)"]
  by (simp add: heap_full_def chain methods start stored_def)

section \<open>The round trip of the codec\<close>

subsection \<open>Numbers\<close>



















subsection \<open>Strings\<close>






subsection \<open>Values\<close>


lemma sep_simps [simp]: "sep []" "sep (CHR '','' # t)" "sep (CHR '']'' # t)" "sep (CHR ''}'' # t)"
  by (simp_all add: sep_def)







lemma skip_ws_sep: "sep rest \<Longrightarrow> skip_ws rest = rest"
  by (cases rest) (auto simp add: sep_def skip_ws_def is_ws_def)



lemma skip_ws_opens: "opens s \<Longrightarrow> skip_ws s = s"
  by (cases s) (auto simp add: opens_def skip_ws_def)

lemma length_member_text [simp]:
  "length (member_text kv) = length (quote (fst kv)) + 1 + length (JSON_stringify (snd kv))"
  by (simp add: member_text_def)






subsection \<open>Decoding what was encoded\<close>





end
